theory Spec2Isabelle
  imports Main "HOL-Library.Sublist"
begin

section \<open>The libvirt domain schema: device aliases and launch security (package api)\<close>

subsection \<open>XML as the encoder sees it\<close>

text \<open>
  The codec is described one level above the text: an element has a local name, a list of
  attributes (name, value) in order, and a list of children in order; character data is
  the other kind of node. Escaping of attribute values and character data is the job of
  the XML library and is not part of this model.
\<close>

datatype xml_node =
    Element string "(string \<times> string) list" "xml_node list"
  | CharData string

fun attributes :: "xml_node \<Rightarrow> (string \<times> string) list" where
  "attributes (Element _ attrs _) = attrs"
| "attributes (CharData _) = []"

fun children :: "xml_node \<Rightarrow> xml_node list" where
  "children (Element _ _ kids) = kids"
| "children (CharData _) = []"

datatype decode_error = ExpectedElement

subsection \<open>Alias\<close>

text \<open>
  The struct has two private fields. The test file builds a libvirt-managed alias with
  the composite literal \<^verbatim>\<open>&Alias{name: aliasName}\<close>, which shows the field \<^verbatim>\<open>name\<close> and
  leaves the boolean at its zero value.
\<close>

record Alias =
  name :: string
  userDefined :: bool

definition newLibvirtManagedAlias :: "string \<Rightarrow> Alias" where
  "newLibvirtManagedAlias aliasName = \<lparr>name = aliasName, userDefined = False\<rparr>"

text \<open>
  Modelled from the spec: the constructor \<^verbatim>\<open>NewUserDefinedAlias\<close>, which the tests call
  and the schema code declares. Section 4.2: "Construct a user-defined alias
  from a bare name".
\<close>

definition NewUserDefinedAlias :: "string \<Rightarrow> Alias" where
  "NewUserDefinedAlias aliasName = \<lparr>name = aliasName, userDefined = True\<rparr>"

text \<open>
  Modelled from the spec: the accessors \<^verbatim>\<open>GetName\<close> (the spec's \<^verbatim>\<open>Name()\<close>) and
  \<^verbatim>\<open>IsUserDefined\<close>. Section 4.2: the first "returns the bare name regardless of which
  constructor was used (never includes the prefix)", the second "returns the flag".
\<close>

definition GetName :: "Alias \<Rightarrow> string" where
  "GetName alias = name alias"

definition IsUserDefined :: "Alias \<Rightarrow> bool" where
  "IsUserDefined alias = userDefined alias"

text \<open>
  Modelled from the spec: the wire prefix of a user-defined alias. Section 3: "a
  user-defined alias is prefixed (\<^verbatim>\<open>ua-<name>\<close>)".
\<close>

definition UserAliasPrefix :: string where
  "UserAliasPrefix = ''ua-''"

text \<open>
  Modelled from the spec: \<^verbatim>\<open>Alias.MarshalXML\<close>. Sections 3 and 4.2: "XML attribute
  \<^verbatim>\<open>name\<close> holds the (possibly prefixed) string"; "a user-defined alias is prefixed and a
  system-managed alias is emitted bare"; "The flag itself is not a wire attribute". The
  second argument is the name of the start element the encoder hands in
  (\<^verbatim>\<open>Alias\<close> when the value is marshalled on its own, as in the tests).
\<close>

definition Alias_MarshalXML :: "Alias \<Rightarrow> string \<Rightarrow> xml_node" where
  "Alias_MarshalXML alias start =
     Element start
       [(''name'', if userDefined alias then UserAliasPrefix @ name alias else name alias)]
       []"

text \<open>
  Modelled from the spec: \<^verbatim>\<open>Alias.UnmarshalXML\<close>. Sections 3 and 4.2: "on read-back,
  the prefix must be stripped and the flag restored"; the flag "is reconstructed purely
  from prefix detection"; "for XML, by prefix-detection at decode time". An absent
  \<^verbatim>\<open>name\<close> attribute leaves the string at its zero value.
\<close>

definition attr_value :: "string \<Rightarrow> (string \<times> string) list \<Rightarrow> string" where
  "attr_value key attrs = (case map_of attrs key of None \<Rightarrow> [] | Some v \<Rightarrow> v)"

fun Alias_UnmarshalXML :: "xml_node \<Rightarrow> decode_error + Alias" where
  "Alias_UnmarshalXML (Element _ attrs _) =
     (let wire = attr_value ''name'' attrs in
      if prefix UserAliasPrefix wire
      then Inr \<lparr>name = drop (length UserAliasPrefix) wire, userDefined = True\<rparr>
      else Inr \<lparr>name = wire, userDefined = False\<rparr>)"
| "Alias_UnmarshalXML (CharData _) = Inl ExpectedElement"

subsection \<open>LaunchSecurity and its AMD payload\<close>

text \<open>
  Modelled from the spec: the structs \<^verbatim>\<open>LaunchSecurity\<close> and \<^verbatim>\<open>AMDLaunchSecurity\<close> of
  the libvirt schema, which the tests use and the schema code declares. The tests build them with the
  fields \<^verbatim>\<open>Type\<close> and \<^verbatim>\<open>AMD\<close> (a pointer) and with the ten string fields below; Section
  4.3 lists the same ten in its tag map.
\<close>

record AMDLaunchSecurity =
  Policy :: string
  AuthorKey :: string
  VCEK :: string
  IdAuth :: string
  IdBlock :: string
  HostData :: string
  DHCert :: string
  Session :: string
  Cbitpos :: string
  ReducedPhysBits :: string

record api_LaunchSecurity =
  Type :: string
  AMD :: "AMDLaunchSecurity option"

text \<open>
  Modelled from the spec: \<^verbatim>\<open>LaunchSecurity.MarshalXML\<close>. Section 4.3: "emit the
  discriminator as an attribute on the wrapping element; emit each AMD-payload field as
  its own child element using a fixed camelCase tag map [...], each omitted when its value
  is the empty string. If the payload reference itself is unset, emit only the empty
  wrapping element." The order of the children is the order of the tag map, which is
  also the order of the expected document in the all-fields test.
\<close>

definition child_element :: "string \<Rightarrow> string \<Rightarrow> xml_node list" where
  "child_element tag v = (if v = [] then [] else [Element tag [] [CharData v]])"

definition AMD_children :: "AMDLaunchSecurity \<Rightarrow> xml_node list" where
  "AMD_children amd =
     child_element ''policy'' (Policy amd) @
     child_element ''authorKey'' (AuthorKey amd) @
     child_element ''vcek'' (VCEK amd) @
     child_element ''idAuth'' (IdAuth amd) @
     child_element ''idBlock'' (IdBlock amd) @
     child_element ''hostData'' (HostData amd) @
     child_element ''dhCert'' (DHCert amd) @
     child_element ''session'' (Session amd) @
     child_element ''cbitpos'' (Cbitpos amd) @
     child_element ''reducedPhysBits'' (ReducedPhysBits amd)"

definition LaunchSecurity_MarshalXML :: "api_LaunchSecurity \<Rightarrow> string \<Rightarrow> xml_node" where
  "LaunchSecurity_MarshalXML ls start =
     Element start [(''type'', Type ls)]
       (case AMD ls of None \<Rightarrow> [] | Some amd \<Rightarrow> AMD_children amd)"

text \<open>
  The tag map of Section 4.3 as a table, in the spec's order: the element name and the
  value of the field it stands for.
\<close>

definition AMD_tag_map :: "AMDLaunchSecurity \<Rightarrow> (string \<times> string) list" where
  "AMD_tag_map amd =
     [(''policy'', Policy amd), (''authorKey'', AuthorKey amd), (''vcek'', VCEK amd),
      (''idAuth'', IdAuth amd), (''idBlock'', IdBlock amd), (''hostData'', HostData amd),
      (''dhCert'', DHCert amd), (''session'', Session amd), (''cbitpos'', Cbitpos amd),
      (''reducedPhysBits'', ReducedPhysBits amd)]"

text \<open>
  The values the tests marshal. \<^verbatim>\<open>&AMDLaunchSecurity{}\<close> has every string at its zero
  value; a composite literal sets the fields it names and leaves the others there.
\<close>

definition AMD_zero :: AMDLaunchSecurity where
  "AMD_zero =
     \<lparr>Policy = [], AuthorKey = [], VCEK = [], IdAuth = [], IdBlock = [], HostData = [],
      DHCert = [], Session = [], Cbitpos = [], ReducedPhysBits = []\<rparr>"

definition test_AMD_all_fields :: AMDLaunchSecurity where
  "test_AMD_all_fields =
     \<lparr>Policy = ''0x30000'', AuthorKey = ''yes'', VCEK = ''yes'', IdAuth = ''test-id-auth'',
      IdBlock = ''test-id-block'', HostData = ''test-host-data'', DHCert = ''test-dh-cert'',
      Session = ''test-session'', Cbitpos = ''51'', ReducedPhysBits = ''1''\<rparr>"

definition test_AMD_sev :: AMDLaunchSecurity where
  "test_AMD_sev = AMD_zero\<lparr>Policy := ''0x0001'', DHCert := ''test-dh-cert'', Session := ''test-session''\<rparr>"

section \<open>AMD SEV predicates on a VirtualMachineInstance (pkg/util/amd64.go)\<close>

subsection \<open>The part of the v1 API object that the predicates read\<close>

text \<open>
  The four functions of \<^verbatim>\<open>pkg/util/amd64.go\<close> take a
  \<^verbatim>\<open>*v1.VirtualMachineInstance\<close> and read the path
  \<^verbatim>\<open>vmi.Spec.Domain.LaunchSecurity\<close> and, below it, \<^verbatim>\<open>SEV\<close>, \<^verbatim>\<open>SNP\<close>,
  \<^verbatim>\<open>SEV.Policy\<close>, \<^verbatim>\<open>SEV.Policy.EncryptedState\<close> and \<^verbatim>\<open>SEV.Attestation\<close>.
  The declarations of these structs belong to package \<^verbatim>\<open>kubevirt.io/api/core/v1\<close>.
  What the functions show about them is kept: \<^verbatim>\<open>Spec\<close> and \<^verbatim>\<open>Domain\<close> are reached
  without a nil test (struct values), the other five are compared with \<^verbatim>\<open>nil\<close>
  (pointers, modelled as \<open>option\<close>), and \<^verbatim>\<open>EncryptedState\<close> points to a \<^verbatim>\<open>bool\<close>.
  The structs behind \<^verbatim>\<open>SNP\<close> and \<^verbatim>\<open>Attestation\<close> are never read, only tested for
  \<^verbatim>\<open>nil\<close>, so they are type parameters \<open>'snp\<close> and \<open>'att\<close>. Records are extensible,
  so fields the functions do not read are left out.
\<close>

record SEVPolicy =
  EncryptedState :: "bool option"

record 'att SEV =
  Policy :: "SEVPolicy option"
  Attestation :: "'att option"

record ('att, 'snp) LaunchSecurity =
  SEV :: "'att SEV option"
  SNP :: "'snp option"

record ('att, 'snp) DomainSpec =
  LaunchSecurity :: "('att, 'snp) LaunchSecurity option"

record ('att, 'snp) VirtualMachineInstanceSpec =
  Domain :: "('att, 'snp) DomainSpec"

record ('att, 'snp) VirtualMachineInstance =
  Spec :: "('att, 'snp) VirtualMachineInstanceSpec"

subsection \<open>Go pointers and the run-time panic\<close>

text \<open>
  A Go pointer is \<open>None\<close> (nil) or \<open>Some\<close> of the struct it points to. Selecting a
  field through a nil pointer panics; the panic is the left summand of the result.
\<close>

datatype go_panic = NilPointerDereference

definition deref :: "'a option \<Rightarrow> go_panic + 'a" where
  "deref p = (case p of None \<Rightarrow> Inl NilPointerDereference | Some x \<Rightarrow> Inr x)"

subsection \<open>The four predicates\<close>

text \<open>
  \<^verbatim>\<open>IsSEVVMI\<close>: \<^verbatim>\<open>LaunchSecurity != nil && (LaunchSecurity.SEV != nil || LaunchSecurity.SNP != nil)\<close>.
  The conjunction short-circuits, so the two selections on the right happen only below a
  non-nil \<^verbatim>\<open>LaunchSecurity\<close>. The argument \<^verbatim>\<open>vmi\<close> itself is dereferenced first.
\<close>

definition IsSEVVMI :: "('att, 'snp) VirtualMachineInstance option \<Rightarrow> go_panic + bool" where
  "IsSEVVMI vmi =
     (case deref vmi of
        Inl e \<Rightarrow> Inl e
      | Inr v \<Rightarrow>
          (case LaunchSecurity (Domain (Spec v)) of
             None \<Rightarrow> Inr False
           | Some ls \<Rightarrow> Inr (SEV ls \<noteq> None \<or> SNP ls \<noteq> None)))"

text \<open>
  \<^verbatim>\<open>IsSEVESVMI\<close>: after the guard \<^verbatim>\<open>!IsSEVVMI(vmi)\<close> the function selects
  \<^verbatim>\<open>vmi.Spec.Domain.LaunchSecurity.SEV\<close> with no nil test of its own on
  \<^verbatim>\<open>LaunchSecurity\<close>: that selection is a \<open>deref\<close>. Each later selection is preceded
  by the source's own \<^verbatim>\<open>== nil\<close> return.
\<close>

definition IsSEVESVMI :: "('att, 'snp) VirtualMachineInstance option \<Rightarrow> go_panic + bool" where
  "IsSEVESVMI vmi =
     (case IsSEVVMI vmi of
        Inl e \<Rightarrow> Inl e
      | Inr False \<Rightarrow> Inr False
      | Inr True \<Rightarrow>
          (case deref vmi of
             Inl e \<Rightarrow> Inl e
           | Inr v \<Rightarrow>
               (case deref (LaunchSecurity (Domain (Spec v))) of
                  Inl e \<Rightarrow> Inl e
                | Inr ls \<Rightarrow>
                    (case SEV ls of
                       None \<Rightarrow> Inr False
                     | Some sev \<Rightarrow>
                         (case Policy sev of
                            None \<Rightarrow> Inr False
                          | Some pol \<Rightarrow>
                              (case EncryptedState pol of
                                 None \<Rightarrow> Inr False
                               | Some b \<Rightarrow> Inr b))))))"

text \<open>
  \<^verbatim>\<open>IsSEVSNPVMI\<close>: guard on \<^verbatim>\<open>IsSEVVMI\<close>, then \<^verbatim>\<open>LaunchSecurity.SNP == nil\<close> returns
  false, otherwise true.
\<close>

definition IsSEVSNPVMI :: "('att, 'snp) VirtualMachineInstance option \<Rightarrow> go_panic + bool" where
  "IsSEVSNPVMI vmi =
     (case IsSEVVMI vmi of
        Inl e \<Rightarrow> Inl e
      | Inr False \<Rightarrow> Inr False
      | Inr True \<Rightarrow>
          (case deref vmi of
             Inl e \<Rightarrow> Inl e
           | Inr v \<Rightarrow>
               (case deref (LaunchSecurity (Domain (Spec v))) of
                  Inl e \<Rightarrow> Inl e
                | Inr ls \<Rightarrow>
                    (case SNP ls of
                       None \<Rightarrow> Inr False
                     | Some _ \<Rightarrow> Inr True))))"

text \<open>
  \<^verbatim>\<open>IsSEVAttestationRequested\<close>: guard on \<^verbatim>\<open>IsSEVVMI\<close>, then on \<^verbatim>\<open>IsSEVSNPVMI\<close>
  (attestation does not apply to SEV-SNP), then \<^verbatim>\<open>LaunchSecurity.SEV == nil\<close> returns
  false, and the result is \<^verbatim>\<open>LaunchSecurity.SEV.Attestation != nil\<close>.
\<close>

definition IsSEVAttestationRequested ::
    "('att, 'snp) VirtualMachineInstance option \<Rightarrow> go_panic + bool" where
  "IsSEVAttestationRequested vmi =
     (case IsSEVVMI vmi of
        Inl e \<Rightarrow> Inl e
      | Inr False \<Rightarrow> Inr False
      | Inr True \<Rightarrow>
          (case IsSEVSNPVMI vmi of
             Inl e \<Rightarrow> Inl e
           | Inr True \<Rightarrow> Inr False
           | Inr False \<Rightarrow>
               (case deref vmi of
                  Inl e \<Rightarrow> Inl e
                | Inr v \<Rightarrow>
                    (case deref (LaunchSecurity (Domain (Spec v))) of
                       Inl e \<Rightarrow> Inl e
                     | Inr ls \<Rightarrow>
                         (case SEV ls of
                            None \<Rightarrow> Inr False
                          | Some sev \<Rightarrow> Inr (Attestation sev \<noteq> None))))))"

subsection \<open>Example objects\<close>

text \<open>
  A VMI that asks for SEV-ES (\<^verbatim>\<open>EncryptedState\<close> points to \<^verbatim>\<open>true\<close>), and one that sets
  SEV with an attestation and SEV-SNP together.
\<close>

definition vmi_sev_es :: "(unit, unit) VirtualMachineInstance" where
  "vmi_sev_es =
     \<lparr>Spec = \<lparr>Domain = \<lparr>LaunchSecurity =
        Some \<lparr>SEV = Some \<lparr>Policy = Some \<lparr>EncryptedState = Some True\<rparr>, Attestation = None\<rparr>,
              SNP = None\<rparr>\<rparr>\<rparr>\<rparr>"

definition vmi_sev_and_snp :: "(unit, unit) VirtualMachineInstance" where
  "vmi_sev_and_snp =
     \<lparr>Spec = \<lparr>Domain = \<lparr>LaunchSecurity =
        Some \<lparr>SEV = Some \<lparr>Policy = None, Attestation = Some ()\<rparr>, SNP = Some ()\<rparr>\<rparr>\<rparr>\<rparr>"

section \<open>Properties of the alias codec\<close>

text \<open>
  The two documents the alias tests expect, \<^verbatim>\<open><Alias name="alias0"></Alias>\<close> and
  \<^verbatim>\<open><Alias name="ua-alias0"></Alias>\<close>, are what the model produces.
\<close>

lemma Alias_MarshalXML_libvirt_managed_fixture:
  "Alias_MarshalXML (newLibvirtManagedAlias ''alias0'') ''Alias''
     = Element ''Alias'' [(''name'', ''alias0'')] []"
  by (simp add: Alias_MarshalXML_def newLibvirtManagedAlias_def)

lemma Alias_MarshalXML_user_defined_fixture:
  "Alias_MarshalXML (NewUserDefinedAlias ''alias0'') ''Alias''
     = Element ''Alias'' [(''name'', ''ua-alias0'')] []"
  by (simp add: Alias_MarshalXML_def NewUserDefinedAlias_def UserAliasPrefix_def)

text \<open>
  What the decoder can return: a flag-false alias never carries a name that begins with
  the prefix, so prefix and flag cannot drift apart on read-back. A bare name in the sense
  of Section 4.2 ("never includes the prefix") is a string that does not begin with
  \<open>ua-\<close>.
\<close>

lemma Alias_UnmarshalXML_bare_when_not_user_defined:
  "Alias_UnmarshalXML node = Inr alias \<Longrightarrow> \<not> IsUserDefined alias \<Longrightarrow>
     \<not> prefix UserAliasPrefix (GetName alias)"
  by (cases node) (auto simp add: Let_def GetName_def IsUserDefined_def split: if_splits)

text \<open>
  Claim C2. For every bare name \<open>n\<close> (a string that does not begin with \<open>ua-\<close>) and
  every start element: a user-defined alias is written with the attribute
  \<open>name = "ua-" + n\<close> and a libvirt-managed one with \<open>name = n\<close>; reading back either
  form succeeds and gives the pair that was written: \<^verbatim>\<open>GetName\<close> is \<open>n\<close> in both cases,
  \<^verbatim>\<open>IsUserDefined\<close> is true for the user-defined alias and false for the libvirt-managed
  one.
\<close>

theorem Alias_xml_roundtrip:
  assumes bare: "\<not> prefix ''ua-'' n"
  shows "attributes (Alias_MarshalXML (NewUserDefinedAlias n) start) = [(''name'', ''ua-'' @ n)]
   \<and> attributes (Alias_MarshalXML (newLibvirtManagedAlias n) start) = [(''name'', n)]
   \<and> (\<exists>alias. Alias_UnmarshalXML (Alias_MarshalXML (NewUserDefinedAlias n) start) = Inr alias
         \<and> GetName alias = n \<and> IsUserDefined alias = True)
   \<and> (\<exists>alias. Alias_UnmarshalXML (Alias_MarshalXML (newLibvirtManagedAlias n) start) = Inr alias
         \<and> GetName alias = n \<and> IsUserDefined alias = False)
   \<and> GetName (NewUserDefinedAlias n) = n
   \<and> IsUserDefined (NewUserDefinedAlias n) = True
   \<and> GetName (newLibvirtManagedAlias n) = n
   \<and> IsUserDefined (newLibvirtManagedAlias n) = False"
proof -
  have written_user:
    "Alias_MarshalXML (NewUserDefinedAlias n) start = Element start [(''name'', ''ua-'' @ n)] []"
    by (simp add: Alias_MarshalXML_def NewUserDefinedAlias_def UserAliasPrefix_def)
  have written_libvirt:
    "Alias_MarshalXML (newLibvirtManagedAlias n) start = Element start [(''name'', n)] []"
    by (simp add: Alias_MarshalXML_def newLibvirtManagedAlias_def)
  have read_user:
    "Alias_UnmarshalXML (Alias_MarshalXML (NewUserDefinedAlias n) start)
       = Inr \<lparr>name = n, userDefined = True\<rparr>"
    by (simp add: written_user attr_value_def UserAliasPrefix_def)
  have read_libvirt:
    "Alias_UnmarshalXML (Alias_MarshalXML (newLibvirtManagedAlias n) start)
       = Inr \<lparr>name = n, userDefined = False\<rparr>"
    using bare by (simp add: written_libvirt attr_value_def UserAliasPrefix_def)
  have encoded_user:
    "GetName (NewUserDefinedAlias n) = n \<and> IsUserDefined (NewUserDefinedAlias n) = True"
    by (simp add: GetName_def IsUserDefined_def NewUserDefinedAlias_def)
  have encoded_libvirt:
    "GetName (newLibvirtManagedAlias n) = n \<and> IsUserDefined (newLibvirtManagedAlias n) = False"
    by (simp add: GetName_def IsUserDefined_def newLibvirtManagedAlias_def)
  have decoded:
    "GetName \<lparr>name = n, userDefined = True\<rparr> = n
     \<and> IsUserDefined \<lparr>name = n, userDefined = True\<rparr> = True
     \<and> GetName \<lparr>name = n, userDefined = False\<rparr> = n
     \<and> IsUserDefined \<lparr>name = n, userDefined = False\<rparr> = False"
    by (simp add: GetName_def IsUserDefined_def)
  have attributes_user:
    "attributes (Alias_MarshalXML (NewUserDefinedAlias n) start) = [(''name'', ''ua-'' @ n)]"
    by (simp add: written_user)
  have attributes_libvirt:
    "attributes (Alias_MarshalXML (newLibvirtManagedAlias n) start) = [(''name'', n)]"
    by (simp add: written_libvirt)
  have back_user:
    "\<exists>alias. Alias_UnmarshalXML (Alias_MarshalXML (NewUserDefinedAlias n) start) = Inr alias
       \<and> GetName alias = n \<and> IsUserDefined alias = True"
    by (simp add: read_user decoded)
  have back_libvirt:
    "\<exists>alias. Alias_UnmarshalXML (Alias_MarshalXML (newLibvirtManagedAlias n) start) = Inr alias
       \<and> GetName alias = n \<and> IsUserDefined alias = False"
    by (simp add: read_libvirt decoded)
  from attributes_user attributes_libvirt back_user back_libvirt encoded_user encoded_libvirt
  show ?thesis
    by blast
qed

text \<open>The theorem at the name of the tests, \<open>alias0\<close>, for both constructors.\<close>

theorem Alias_xml_roundtrip_witness:
  "\<not> prefix ''ua-'' ''alias0''
   \<and> Alias_UnmarshalXML (Alias_MarshalXML (newLibvirtManagedAlias ''alias0'') ''Alias'')
        = Inr \<lparr>name = ''alias0'', userDefined = False\<rparr>
   \<and> Alias_UnmarshalXML (Alias_MarshalXML (NewUserDefinedAlias ''alias0'') ''Alias'')
        = Inr \<lparr>name = ''alias0'', userDefined = True\<rparr>"
proof -
  have bare: "\<not> prefix ''ua-'' ''alias0''"
    by simp
  from Alias_xml_roundtrip [OF bare, of "''Alias''"] bare show ?thesis
    by (auto simp add: GetName_def IsUserDefined_def)
qed

section \<open>Properties of the launch-security encoder\<close>

text \<open>
  The documents the launch-security tests expect: all ten fields, only \<^verbatim>\<open>Policy\<close>, the
  empty payload, the nil payload, and plain SEV with three fields.
\<close>

lemma LaunchSecurity_MarshalXML_all_fields_fixture:
  "LaunchSecurity_MarshalXML \<lparr>Type = ''sev-snp'', AMD = Some test_AMD_all_fields\<rparr> ''LaunchSecurity''
     = Element ''LaunchSecurity'' [(''type'', ''sev-snp'')]
         [Element ''policy'' [] [CharData ''0x30000''],
          Element ''authorKey'' [] [CharData ''yes''],
          Element ''vcek'' [] [CharData ''yes''],
          Element ''idAuth'' [] [CharData ''test-id-auth''],
          Element ''idBlock'' [] [CharData ''test-id-block''],
          Element ''hostData'' [] [CharData ''test-host-data''],
          Element ''dhCert'' [] [CharData ''test-dh-cert''],
          Element ''session'' [] [CharData ''test-session''],
          Element ''cbitpos'' [] [CharData ''51''],
          Element ''reducedPhysBits'' [] [CharData ''1'']]"
  by (simp add: LaunchSecurity_MarshalXML_def AMD_children_def child_element_def
      test_AMD_all_fields_def)

lemma LaunchSecurity_MarshalXML_sev_fixture:
  "LaunchSecurity_MarshalXML \<lparr>Type = ''sev'', AMD = Some test_AMD_sev\<rparr> ''LaunchSecurity''
     = Element ''LaunchSecurity'' [(''type'', ''sev'')]
         [Element ''policy'' [] [CharData ''0x0001''],
          Element ''dhCert'' [] [CharData ''test-dh-cert''],
          Element ''session'' [] [CharData ''test-session'']]"
  by (simp add: LaunchSecurity_MarshalXML_def AMD_children_def child_element_def
      test_AMD_sev_def AMD_zero_def)

text \<open>
  Claim C4. For every discriminator, payload and start element: the wrapping element
  carries the attribute \<open>type\<close>; with a payload, its children are, in the order of the tag
  map, one element per field whose value is not the empty string, named by the map and
  holding that value, and nothing else; a payload with only \<^verbatim>\<open>Policy\<close> set gives exactly
  the one child \<open>policy\<close>; the nil payload and the payload with every field empty give the
  wrapping element with its \<open>type\<close> attribute and no children.
\<close>

theorem LaunchSecurity_MarshalXML_children:
  "LaunchSecurity_MarshalXML \<lparr>Type = ty, AMD = Some amd\<rparr> start
     = Element start [(''type'', ty)]
         [Element tag [] [CharData v]. (tag, v) \<leftarrow> AMD_tag_map amd, v \<noteq> []]
   \<and> LaunchSecurity_MarshalXML
        \<lparr>Type = ty, AMD = Some (AMD_zero\<lparr>AMDLaunchSecurity.Policy := c # cs\<rparr>)\<rparr> start
     = Element start [(''type'', ty)] [Element ''policy'' [] [CharData (c # cs)]]
   \<and> LaunchSecurity_MarshalXML \<lparr>Type = ty, AMD = None\<rparr> start
     = Element start [(''type'', ty)] []
   \<and> LaunchSecurity_MarshalXML \<lparr>Type = ty, AMD = Some AMD_zero\<rparr> start
     = Element start [(''type'', ty)] []"
  by (simp add: LaunchSecurity_MarshalXML_def AMD_children_def AMD_tag_map_def
      child_element_def AMD_zero_def)

text \<open>
  The theorem at the payload of the minimal test: \<^verbatim>\<open>Policy: "0x30000"\<close> alone gives
  \<^verbatim>\<open><LaunchSecurity type="sev-snp"><policy>0x30000</policy></LaunchSecurity>\<close>.
\<close>

theorem LaunchSecurity_MarshalXML_children_witness:
  "LaunchSecurity_MarshalXML
     \<lparr>Type = ''sev-snp'', AMD = Some (AMD_zero\<lparr>AMDLaunchSecurity.Policy := ''0x30000''\<rparr>)\<rparr>
     ''LaunchSecurity''
     = Element ''LaunchSecurity'' [(''type'', ''sev-snp'')]
         [Element ''policy'' [] [CharData ''0x30000'']]"
  using LaunchSecurity_MarshalXML_children
    [of "''sev-snp''" "AMD_zero" "''LaunchSecurity''" "CHR ''0''" "''x30000''"]
  by simp

section \<open>Properties of the SEV predicates\<close>

text \<open>
  On a VMI object (a non-nil argument) \<^verbatim>\<open>IsSEVVMI\<close> returns, and says whether
  \<^verbatim>\<open>LaunchSecurity\<close> is set with \<^verbatim>\<open>SEV\<close> or \<^verbatim>\<open>SNP\<close> below it. A nil argument panics at
  the first selection.
\<close>

lemma IsSEVVMI_Some:
  "IsSEVVMI (Some vmi) =
     Inr (\<exists>ls. LaunchSecurity (Domain (Spec vmi)) = Some ls \<and> (SEV ls \<noteq> None \<or> SNP ls \<noteq> None))"
  by (simp add: IsSEVVMI_def deref_def split: option.split)

lemma IsSEVVMI_nil: "IsSEVVMI None = Inl NilPointerDereference"
  by (simp add: IsSEVVMI_def deref_def)

lemma IsSEVSNPVMI_Some:
  "IsSEVSNPVMI (Some vmi) =
     Inr (\<exists>ls snp. LaunchSecurity (Domain (Spec vmi)) = Some ls \<and> SNP ls = Some snp)"
  by (auto simp add: IsSEVSNPVMI_def IsSEVVMI_def deref_def split: option.split bool.split)

text \<open>
  Claim C9. For every VMI object, \<^verbatim>\<open>IsSEVESVMI\<close> returns a boolean, and that boolean is
  true if and only if \<^verbatim>\<open>LaunchSecurity\<close>, its \<^verbatim>\<open>SEV\<close>, \<^verbatim>\<open>SEV.Policy\<close> and
  \<^verbatim>\<open>Policy.EncryptedState\<close> are all non-nil and the boolean pointed to is true. The call
  never ends in a nil-pointer panic, and whenever it returns true so does \<^verbatim>\<open>IsSEVVMI\<close>.
\<close>

theorem IsSEVESVMI_iff:
  "IsSEVESVMI (Some vmi) =
     Inr (\<exists>ls sev pol. LaunchSecurity (Domain (Spec vmi)) = Some ls \<and> SEV ls = Some sev \<and>
            SEV.Policy sev = Some pol \<and> EncryptedState pol = Some True)
   \<and> IsSEVESVMI (Some vmi) \<noteq> Inl NilPointerDereference
   \<and> (IsSEVESVMI (Some vmi) = Inr True \<longrightarrow> IsSEVVMI (Some vmi) = Inr True)"
proof (intro conjI impI)
  show result: "IsSEVESVMI (Some vmi) =
     Inr (\<exists>ls sev pol. LaunchSecurity (Domain (Spec vmi)) = Some ls \<and> SEV ls = Some sev \<and>
            SEV.Policy sev = Some pol \<and> EncryptedState pol = Some True)"
    by (auto simp add: IsSEVESVMI_def IsSEVVMI_def deref_def split: option.split bool.split)
  from result show "IsSEVESVMI (Some vmi) \<noteq> Inl NilPointerDereference"
    by simp
  assume "IsSEVESVMI (Some vmi) = Inr True"
  with result obtain ls sev
    where "LaunchSecurity (Domain (Spec vmi)) = Some ls" and "SEV ls = Some sev"
    by auto
  then show "IsSEVVMI (Some vmi) = Inr True"
    by (simp add: IsSEVVMI_Some)
qed

theorem IsSEVESVMI_iff_witness:
  "IsSEVESVMI (Some vmi_sev_es) = Inr True \<and> IsSEVVMI (Some vmi_sev_es) = Inr True"
  using IsSEVESVMI_iff [of vmi_sev_es] by (simp add: vmi_sev_es_def)

text \<open>
  Claim C10. For every VMI object, \<^verbatim>\<open>IsSEVAttestationRequested\<close> returns a boolean, true
  if and only if \<^verbatim>\<open>LaunchSecurity\<close> is set, \<^verbatim>\<open>SNP\<close> is nil, \<^verbatim>\<open>SEV\<close> is set and
  \<^verbatim>\<open>SEV.Attestation\<close> is non-nil. In particular it returns false whenever \<^verbatim>\<open>SNP\<close> is
  non-nil, whatever \<^verbatim>\<open>SEV\<close> and \<^verbatim>\<open>SEV.Attestation\<close> are.
\<close>

theorem IsSEVAttestationRequested_iff:
  "IsSEVAttestationRequested (Some vmi) =
     Inr (\<exists>ls sev att. LaunchSecurity (Domain (Spec vmi)) = Some ls \<and> SNP ls = None \<and>
            SEV ls = Some sev \<and> Attestation sev = Some att)
   \<and> (\<forall>ls snp. LaunchSecurity (Domain (Spec vmi)) = Some ls \<and> SNP ls = Some snp \<longrightarrow>
         IsSEVAttestationRequested (Some vmi) = Inr False)"
  by (auto simp add: IsSEVAttestationRequested_def IsSEVSNPVMI_def IsSEVVMI_def deref_def
      split: option.split bool.split)

text \<open>
  The theorem at a VMI with \<^verbatim>\<open>SNP\<close>, \<^verbatim>\<open>SEV\<close> and \<^verbatim>\<open>SEV.Attestation\<close> all set: the answer is
  false.
\<close>

theorem IsSEVAttestationRequested_iff_witness:
  "LaunchSecurity (Domain (Spec vmi_sev_and_snp))
     = Some \<lparr>SEV = Some \<lparr>SEV.Policy = None, Attestation = Some ()\<rparr>, SNP = Some ()\<rparr>
   \<and> IsSEVAttestationRequested (Some vmi_sev_and_snp) = Inr False"
  using IsSEVAttestationRequested_iff [of vmi_sev_and_snp] by (simp add: vmi_sev_and_snp_def)

end
